theory Spec2Isabelle
  imports Main "HOL-Library.Word" "HOL-Library.Code_Target_Nat"
begin

section \<open>Typed values: pointers whose identity carries the intent\<close>

text \<open>
  The Go package declares seven scalar wrapper types and, for each of them, two
  package-level variables (\<^verbatim>\<open>getStringOp\<close>, \<^verbatim>\<open>deleteStringOp\<close>, ...). A field of a
  record is a pointer to such a type. The methods only ever compare the receiver with
  \<^verbatim>\<open>nil\<close>, with the address of the type's get variable and with the address of the
  type's delete variable, so a pointer is modelled by the four cases that these
  comparisons can tell apart: \<open>nil\<close>, the two addresses, and the address of any other
  variable together with the value stored there (\<^verbatim>\<open>SetString\<close> returns the address of
  a local it has just initialised, which Go keeps distinct from every other variable).
  The two package-level variables are never assigned by the package, so they hold the
  zero value of their type.
\<close>

datatype 'a ptr = nil | getOp | deleteOp | alloc 'a

text \<open>
  The three classification methods are written seven times in the source, identically
  up to the names of the two variables:
  \<^verbatim>\<open>IsGet: return e == &getStringOp\<close>,
  \<^verbatim>\<open>IsSet: return e != &deleteStringOp && e != nil\<close>,
  \<^verbatim>\<open>IsDelete: return e == &deleteStringOp\<close>.
\<close>

definition IsGet :: "'a ptr \<Rightarrow> bool" where
  "IsGet e \<longleftrightarrow> e = getOp"

definition IsSet :: "'a ptr \<Rightarrow> bool" where
  "IsSet e \<longleftrightarrow> e \<noteq> deleteOp \<and> e \<noteq> nil"

definition IsDelete :: "'a ptr \<Rightarrow> bool" where
  "IsDelete e \<longleftrightarrow> e = deleteOp"

type_synonym EtcdString = string
type_synonym EtcdUuid = string
type_synonym EtcdInt = "64 word"
type_synonym EtcdUint = "64 word"
type_synonym EtcdBool = bool
type_synonym EtcdBytes = "8 word list"

section \<open>Errors\<close>

text \<open>
  The Go code reports every failure as an error value built from a message. One
  constructor stands for each message (or for each error of a library function):
  \<^item> \<open>InvalidArgumentNotPointer\<close>: \<^verbatim>\<open>Provided interface is not a pointer\<close>;
  \<^item> \<open>InvalidArgumentNotStruct\<close>: \<^verbatim>\<open>Provided interface is does not reference a struct\<close>;
  \<^item> \<open>MissingVariable p\<close>: \<^verbatim>\<open>pathvar %s not populated\<close>, with the segment \<open>p\<close>;
  \<^item> \<open>InvalidContext\<close>: \<^verbatim>\<open>cannot use @ pathvar inside slice\<close>;
  \<^item> \<open>InvalidCollectionElement\<close>: \<^verbatim>\<open>Slice must be of *EtcdValue type\<close>;
  \<^item> \<open>UnsupportedElementKind\<close>: \<^verbatim>\<open>Cannot set a slice of structs. Structs must be set individually\<close>;
  \<^item> \<open>ResponseCountMismatch\<close>: \<^verbatim>\<open>Unexpected number of responses\<close>;
  \<^item> \<open>FieldDecodeError\<close>: \<^verbatim>\<open>Invalid data for field type\<close>;
  \<^item> \<open>TransactionError\<close>: the error returned by the store's \<^verbatim>\<open>Commit\<close>;
  \<^item> \<open>ErrSyntax\<close>, \<open>ErrRange\<close>: the two errors of \<^verbatim>\<open>strconv\<close>;
  \<^item> \<open>TimeParseError\<close>: the error of \<^verbatim>\<open>time.Parse\<close>;
  \<^item> \<open>CorruptInputError\<close>: the error of \<^verbatim>\<open>base64\<close> decoding.
\<close>

datatype error =
    InvalidArgumentNotPointer
  | InvalidArgumentNotStruct
  | MissingVariable string
  | InvalidContext
  | InvalidCollectionElement
  | UnsupportedElementKind
  | ResponseCountMismatch
  | FieldDecodeError
  | TransactionError
  | ErrSyntax
  | ErrRange
  | TimeParseError
  | CorruptInputError

section \<open>Path resolution\<close>

text \<open>
  \<^verbatim>\<open>strings.Split(path, "/")\<close> with a one-byte separator: one more piece than there
  are separators, and the single piece \<open>[]\<close> for the empty string.
\<close>

fun Split :: "string \<Rightarrow> char \<Rightarrow> string list" where
  "Split [] sep = [[]]"
| "Split (c # s) sep =
     (if c = sep then [] # Split s sep
      else (case Split s sep of [] \<Rightarrow> [[c]] | p # ps \<Rightarrow> (c # p) # ps))"

definition HasPrefix :: "string \<Rightarrow> string \<Rightarrow> bool" where
  "HasPrefix s pre \<longleftrightarrow> take (length pre) s = pre"

definition TrimPrefix :: "string \<Rightarrow> string \<Rightarrow> string" where
  "TrimPrefix s pre = (if HasPrefix s pre then drop (length pre) s else s)"

text \<open>
  \<^verbatim>\<open>strings.Replace(s, old, new, -1)\<close>: every non-overlapping occurrence of \<open>old\<close>,
  from the left. For an empty \<open>old\<close> Go inserts \<open>new\<close> in front of the string and
  after every character; \<open>pathReplace\<close> never takes that branch, since its \<open>old\<close>
  starts with a colon.
\<close>

function Replace :: "string \<Rightarrow> string \<Rightarrow> string \<Rightarrow> string" where
  "Replace s old new =
     (if old = [] then new @ concat (map (\<lambda>c. c # new) s)
      else if s = [] then []
      else if HasPrefix s old then new @ Replace (drop (length old) s) old new
      else hd s # Replace (tl s) old new)"
  by pat_completeness auto
termination
  by (relation "measure (\<lambda>(s, old, new). length s)") auto

declare Replace.simps [simp del]

type_synonym pathvars = "string \<rightharpoonup> string"

text \<open>
  \<^verbatim>\<open>pathReplace\<close> splits the template once and then walks the pieces; the
  replacement is made in the whole path, the pieces stay those of the template.
\<close>

fun pathReplace_loop :: "string list \<Rightarrow> string \<Rightarrow> pathvars \<Rightarrow> bool \<Rightarrow> error + string" where
  "pathReplace_loop [] path pathvars inslice = Inr path"
| "pathReplace_loop (p # pathArr) path pathvars inslice =
     (if HasPrefix p '':'' then
        (if TrimPrefix p '':'' = ''@'' \<and> inslice then Inl InvalidContext
         else (case pathvars (TrimPrefix p '':'') of
                 None \<Rightarrow> Inl (MissingVariable p)
               | Some val \<Rightarrow> pathReplace_loop pathArr (Replace path p val) pathvars inslice))
      else pathReplace_loop pathArr path pathvars inslice)"

definition pathReplace :: "string \<Rightarrow> pathvars \<Rightarrow> bool \<Rightarrow> error + string" where
  "pathReplace path pathvars inslice =
     pathReplace_loop (Split path CHR ''/'') path pathvars inslice"

text \<open>
  A piece of a template that stops the resolution: a variable piece that is the
  accumulator inside a collection, or whose name the table does not hold.
\<close>

definition unresolvable :: "pathvars \<Rightarrow> bool \<Rightarrow> string \<Rightarrow> bool" where
  "unresolvable pathvars inslice p \<longleftrightarrow>
     HasPrefix p '':'' \<and>
     ((TrimPrefix p '':'' = ''@'' \<and> inslice) \<or> pathvars (TrimPrefix p '':'') = None)"

section \<open>Serialisation of the scalar types\<close>

text \<open>
  Dereferencing a pointer: \<open>nil\<close> has no target (the Go program panics), the two
  package-level variables hold the zero value \<open>z\<close> of their type.
\<close>

fun deref :: "'a \<Rightarrow> 'a ptr \<Rightarrow> 'a option" where
  "deref z nil = None"
| "deref z getOp = Some z"
| "deref z deleteOp = Some z"
| "deref z (alloc v) = Some v"

text \<open>
  Every \<open>ToString\<close> below returns \<open>None\<close> where the Go method panics on a nil
  receiver: the methods of \<open>EtcdInt\<close> and \<open>EtcdBool\<close> dereference without the
  \<^verbatim>\<open>if e == nil\<close> test the other five have. Every \<open>FromString\<close> returns the value
  that the Go method stores in \<^verbatim>\<open>*e\<close>, or the error it returns and stores nothing.
\<close>

subsection \<open>Text and identifiers\<close>

definition EtcdString_ToString :: "EtcdString ptr \<Rightarrow> string option" where
  "EtcdString_ToString e = (if e = nil then Some [] else deref [] e)"

definition EtcdString_FromString :: "string \<Rightarrow> error + EtcdString" where
  "EtcdString_FromString v = Inr v"

definition EtcdUuid_ToString :: "EtcdUuid ptr \<Rightarrow> string option" where
  "EtcdUuid_ToString e = (if e = nil then Some [] else deref [] e)"

definition EtcdUuid_FromString :: "string \<Rightarrow> error + EtcdUuid" where
  "EtcdUuid_FromString v = Inr v"

subsection \<open>Integers: \<^verbatim>\<open>strconv\<close> in base 10\<close>

definition utod :: "nat \<Rightarrow> char" where
  "utod u = char_of (48 + u)"

definition isDigit :: "char \<Rightarrow> bool" where
  "isDigit c \<longleftrightarrow> 48 \<le> (of_char c :: nat) \<and> (of_char c :: nat) \<le> 57"

definition digitVal :: "char \<Rightarrow> nat" where
  "digitVal c = of_char c - 48"

text \<open>\<^verbatim>\<open>strconv.FormatUint(u, 10)\<close>: the decimal digits, without leading zeros.\<close>

function FormatUint :: "nat \<Rightarrow> string" where
  "FormatUint u = (if u < 10 then [utod u] else FormatUint (u div 10) @ [utod (u mod 10)])"
  by pat_completeness auto
termination
  by (relation "measure (\<lambda>u. u)") auto

declare FormatUint.simps [simp del]

text \<open>\<^verbatim>\<open>strconv.FormatInt(i, 10)\<close>: a minus sign and the digits of the magnitude.\<close>

definition FormatInt :: "int \<Rightarrow> string" where
  "FormatInt i = (if i < 0 then CHR ''-'' # FormatUint (nat (- i)) else FormatUint (nat i))"

definition maxUint64 :: nat where
  "maxUint64 = 18446744073709551615"

text \<open>
  The loop of \<^verbatim>\<open>strconv.ParseUint(s, 10, 64)\<close>. With the base given as 10 an
  underscore and a letter are syntax errors. \<^verbatim>\<open>cutoff\<close> is \<^verbatim>\<open>maxUint64/10 + 1\<close>;
  the test \<^verbatim>\<open>n1 < n || n1 > maxVal\<close> of the 64-bit sum is the test that the exact
  sum exceeds \<open>maxUint64\<close>.
\<close>

fun ParseUint_loop :: "nat \<Rightarrow> string \<Rightarrow> error + nat" where
  "ParseUint_loop n [] = Inr n"
| "ParseUint_loop n (c # s) =
     (if \<not> isDigit c then Inl ErrSyntax
      else if n \<ge> maxUint64 div 10 + 1 then Inl ErrRange
      else if n * 10 + digitVal c > maxUint64 then Inl ErrRange
      else ParseUint_loop (n * 10 + digitVal c) s)"

definition ParseUint :: "string \<Rightarrow> error + nat" where
  "ParseUint s = (if s = [] then Inl ErrSyntax else ParseUint_loop 0 s)"

text \<open>
  \<^verbatim>\<open>strconv.ParseInt(s, 10, 64)\<close>: an optional sign, then \<open>ParseUint\<close>, then the
  test against \<^verbatim>\<open>1 << 63\<close>.
\<close>

definition ParseInt :: "string \<Rightarrow> error + int" where
  "ParseInt s =
     (if s = [] then Inl ErrSyntax
      else
        (let neg = (hd s = CHR ''-'');
             s' = (if hd s = CHR ''+'' \<or> hd s = CHR ''-'' then tl s else s)
         in case ParseUint s' of
              Inl e \<Rightarrow> Inl e
            | Inr un \<Rightarrow>
                if \<not> neg \<and> un \<ge> 9223372036854775808 then Inl ErrRange
                else if neg \<and> un > 9223372036854775808 then Inl ErrRange
                else Inr (if neg then - int un else int un)))"

definition EtcdInt_ToString :: "EtcdInt ptr \<Rightarrow> string option" where
  "EtcdInt_ToString e = map_option (\<lambda>i. FormatInt (sint i)) (deref 0 e)"

definition EtcdInt_FromString :: "string \<Rightarrow> error + EtcdInt" where
  "EtcdInt_FromString v = (case ParseInt v of Inl err \<Rightarrow> Inl err | Inr i \<Rightarrow> Inr (word_of_int i))"

definition EtcdUint_ToString :: "EtcdUint ptr \<Rightarrow> string option" where
  "EtcdUint_ToString e =
     (if e = nil then Some [] else map_option (\<lambda>u. FormatUint (unat u)) (deref 0 e))"

definition EtcdUint_FromString :: "string \<Rightarrow> error + EtcdUint" where
  "EtcdUint_FromString v = (case ParseUint v of Inl err \<Rightarrow> Inl err | Inr u \<Rightarrow> Inr (of_nat u))"

subsection \<open>Booleans\<close>

definition FormatBool :: "bool \<Rightarrow> string" where
  "FormatBool b = (if b then ''true'' else ''false'')"

definition ParseBool :: "string \<Rightarrow> error + bool" where
  "ParseBool str =
     (if str \<in> set [''1'', ''t'', ''T'', ''TRUE'', ''true'', ''True''] then Inr True
      else if str \<in> set [''0'', ''f'', ''F'', ''FALSE'', ''false'', ''False''] then Inr False
      else Inl ErrSyntax)"

definition EtcdBool_ToString :: "EtcdBool ptr \<Rightarrow> string option" where
  "EtcdBool_ToString e = map_option FormatBool (deref False e)"

definition EtcdBool_FromString :: "string \<Rightarrow> error + EtcdBool" where
  "EtcdBool_FromString v = (case ParseBool v of Inl err \<Rightarrow> Inl err | Inr b \<Rightarrow> Inr b)"

subsection \<open>Times: \<^verbatim>\<open>time.RFC3339\<close>\<close>

text \<open>
  A \<^verbatim>\<open>time.Time\<close> is an instant with nanosecond precision together with a location.
  The model keeps what \<^verbatim>\<open>Format\<close>, \<^verbatim>\<open>Parse\<close> and \<^verbatim>\<open>Equal\<close> observe of it: the
  calendar reading of the instant in its location, the nanoseconds within the second,
  and the offset of the location from UTC in seconds. The name of the location and the
  monotonic clock reading are left out.
\<close>

record Time =
  year :: int
  month :: nat
  day :: nat
  hour :: nat
  minute :: nat
  second :: nat
  nanosecond :: nat
  offset :: int

text \<open>The zero \<^verbatim>\<open>time.Time\<close>: January 1 of year 1, 00:00:00 UTC.\<close>

definition zeroTime :: Time where
  "zeroTime = \<lparr>year = 1, month = 1, day = 1, hour = 0, minute = 0, second = 0,
     nanosecond = 0, offset = 0\<rparr>"

definition isLeap :: "int \<Rightarrow> bool" where
  "isLeap y \<longleftrightarrow> y mod 4 = 0 \<and> (y mod 100 \<noteq> 0 \<or> y mod 400 = 0)"

definition daysIn :: "nat \<Rightarrow> int \<Rightarrow> nat" where
  "daysIn m y =
     (if m = 2 then (if isLeap y then 29 else 28)
      else if m = 4 \<or> m = 6 \<or> m = 9 \<or> m = 11 then 30
      else 31)"

text \<open>
  \<^verbatim>\<open>appendInt(b, x, width)\<close> of package \<^verbatim>\<open>time\<close>: a minus sign for a negative
  \<open>x\<close>, then the magnitude, padded with zeros to \<open>width\<close> digits.
\<close>

definition appendInt :: "int \<Rightarrow> nat \<Rightarrow> string" where
  "appendInt x width =
     (let u = nat \<bar>x\<bar> in
      (if x < 0 then ''-'' else []) @
      (if width = 2 \<and> u < 100 then [utod (u div 10), utod (u mod 10)]
       else if width = 4 \<and> u < 10000 then
         [utod (u div 1000), utod (u div 100 mod 10), utod (u div 10 mod 10), utod (u mod 10)]
       else replicate (width - length (FormatUint u)) CHR ''0'' @ FormatUint u))"

text \<open>
  The zone of the layout element \<^verbatim>\<open>Z07:00\<close>: \<open>Z\<close> for offset 0, otherwise the sign,
  hours and minutes. Go divides the offset by 60 towards zero.
\<close>

definition formatZone :: "int \<Rightarrow> string" where
  "formatZone off =
     (if off = 0 then ''Z''
      else
        (let zone = sgn off * (\<bar>off\<bar> div 60) in
         (if zone < 0 then ''-'' else ''+'') @
         appendInt (\<bar>zone\<bar> div 60) 2 @ '':'' @ appendInt (\<bar>zone\<bar> mod 60) 2))"

text \<open>\<^verbatim>\<open>t.Format(time.RFC3339)\<close>, layout \<^verbatim>\<open>2006-01-02T15:04:05Z07:00\<close>.\<close>

definition Format_RFC3339 :: "Time \<Rightarrow> string" where
  "Format_RFC3339 t =
     appendInt (year t) 4 @ ''-'' @ appendInt (int (month t)) 2 @ ''-'' @
     appendInt (int (day t)) 2 @ ''T'' @ appendInt (int (hour t)) 2 @ '':'' @
     appendInt (int (minute t)) 2 @ '':'' @ appendInt (int (second t)) 2 @
     formatZone (offset t)"

text \<open>
  The pieces of \<^verbatim>\<open>time.Parse\<close> that the layout uses. \<open>None\<close> is a parse error.
  \<open>getnum\<close> reads two digits, or one digit when \<open>fixed\<close> is false and no second digit
  follows.
\<close>

definition getnum :: "string \<Rightarrow> bool \<Rightarrow> (nat \<times> string) option" where
  "getnum s fixed =
     (case s of
        [] \<Rightarrow> None
      | c # r \<Rightarrow>
          if \<not> isDigit c then None
          else (case r of
                  [] \<Rightarrow> if fixed then None else Some (digitVal c, r)
                | d # r' \<Rightarrow>
                    if \<not> isDigit d then (if fixed then None else Some (digitVal c, r))
                    else Some (digitVal c * 10 + digitVal d, r')))"

definition skip :: "string \<Rightarrow> string \<Rightarrow> string option" where
  "skip val pre = (if HasPrefix val pre then Some (drop (length pre) val) else None)"

definition parseYear :: "string \<Rightarrow> (nat \<times> string) option" where
  "parseYear s =
     (case s of
        a # b # c # d # r \<Rightarrow>
          if isDigit a \<and> isDigit b \<and> isDigit c \<and> isDigit d
          then Some (((digitVal a * 10 + digitVal b) * 10 + digitVal c) * 10 + digitVal d, r)
          else None
      | _ \<Rightarrow> None)"

text \<open>
  A fraction of a second in the input although the layout has none: a period or a comma
  followed by digits. The first nine digits count, scaled to nanoseconds.
\<close>

definition parseFraction :: "string \<Rightarrow> nat \<times> string" where
  "parseFraction s =
     (case s of
        c # d # r \<Rightarrow>
          if (c = CHR ''.'' \<or> c = CHR '','') \<and> isDigit d then
            (let ds = take 9 (takeWhile isDigit (d # r)) in
             (foldl (\<lambda>n x. n * 10 + digitVal x) 0 ds * 10 ^ (9 - length ds),
              dropWhile isDigit (d # r)))
          else (0, s)
      | _ \<Rightarrow> (0, s))"

text \<open>
  The zone: \<open>Z\<close> is UTC; otherwise sign, two digits, a colon, two digits, with hours up
  to 24 and minutes up to 60 accepted.
\<close>

definition parseZone :: "string \<Rightarrow> (int \<times> string) option" where
  "parseZone s =
     (case s of
        [] \<Rightarrow> None
      | z # r0 \<Rightarrow>
          if z = CHR ''Z'' then Some (0, r0)
          else (case s of
                  sign # h1 # h2 # colon # m1 # m2 # r \<Rightarrow>
                    if colon \<noteq> CHR '':'' then None
                    else (case getnum [h1, h2] True of
                            None \<Rightarrow> None
                          | Some (hr, _) \<Rightarrow>
                              (case getnum [m1, m2] True of
                                 None \<Rightarrow> None
                               | Some (mm, _) \<Rightarrow>
                                   if hr > 24 \<or> mm > 60 then None
                                   else if sign = CHR ''+'' then Some (int ((hr * 60 + mm) * 60), r)
                                   else if sign = CHR ''-'' then Some (- int ((hr * 60 + mm) * 60), r)
                                   else None))
                | _ \<Rightarrow> None))"

text \<open>
  \<^verbatim>\<open>time.Parse(time.RFC3339, value)\<close>: the elements in the order of the layout, each
  range test where Go makes it, no text left over, and the day tested against the
  month at the end.
\<close>

definition parseFields :: "string \<Rightarrow> Time option" where
  "parseFields val =
     Option.bind (parseYear val) (\<lambda>(y, v).
     Option.bind (skip v ''-'') (\<lambda>v.
     Option.bind (getnum v True) (\<lambda>(mo, v).
     if mo \<le> 0 \<or> 12 < mo then None else
     Option.bind (skip v ''-'') (\<lambda>v.
     Option.bind (getnum v True) (\<lambda>(d, v).
     Option.bind (skip v ''T'') (\<lambda>v.
     Option.bind (getnum v False) (\<lambda>(h, v).
     if 24 \<le> h then None else
     Option.bind (skip v '':'') (\<lambda>v.
     Option.bind (getnum v True) (\<lambda>(mi, v).
     if 60 \<le> mi then None else
     Option.bind (skip v '':'') (\<lambda>v.
     Option.bind (getnum v True) (\<lambda>(sec, v).
     if 60 \<le> sec then None else
     (case parseFraction v of (ns, v) \<Rightarrow>
     Option.bind (parseZone v) (\<lambda>(off, v).
     if v \<noteq> [] then None
     else if d < 1 \<or> d > daysIn mo (int y) then None
     else Some \<lparr>year = int y, month = mo, day = d, hour = h, minute = mi,
                 second = sec, nanosecond = ns, offset = off\<rparr>)))))))))))))"

definition Parse_RFC3339 :: "string \<Rightarrow> error + Time" where
  "Parse_RFC3339 val =
     (case parseFields val of None \<Rightarrow> Inl TimeParseError | Some t \<Rightarrow> Inr t)"

type_synonym EtcdTime = Time

definition EtcdTime_ToString :: "EtcdTime ptr \<Rightarrow> string option" where
  "EtcdTime_ToString e =
     (if e = nil then Some [] else map_option Format_RFC3339 (deref zeroTime e))"

definition EtcdTime_FromString :: "string \<Rightarrow> error + EtcdTime" where
  "EtcdTime_FromString v = (case Parse_RFC3339 v of Inl err \<Rightarrow> Inl err | Inr t \<Rightarrow> Inr t)"

subsection \<open>Byte blobs: \<^verbatim>\<open>encoding/base64\<close> without padding\<close>

definition encodeStd :: string where
  "encodeStd = ''ABCDEFGHIJKLMNOPQRSTUVWXYZabcdefghijklmnopqrstuvwxyz0123456789+/''"

definition encodeURL :: string where
  "encodeURL = ''ABCDEFGHIJKLMNOPQRSTUVWXYZabcdefghijklmnopqrstuvwxyz0123456789-_''"

text \<open>
  The 6-bit groups of a byte sequence, as \<^verbatim>\<open>Encoding.Encode\<close> cuts them: three bytes
  make the 24-bit value \<^verbatim>\<open>b0<<16 | b1<<8 | b2\<close> and four groups; one or two bytes
  left over make two or three groups.
\<close>

fun sextets :: "8 word list \<Rightarrow> nat list" where
  "sextets [] = []"
| "sextets [a] =
     (let val = unat a * 65536 in [val div 262144 mod 64, val div 4096 mod 64])"
| "sextets [a, b] =
     (let val = unat a * 65536 + unat b * 256
      in [val div 262144 mod 64, val div 4096 mod 64, val div 64 mod 64])"
| "sextets (a # b # c # src) =
     (let val = unat a * 65536 + unat b * 256 + unat c
      in [val div 262144 mod 64, val div 4096 mod 64, val div 64 mod 64, val mod 64])
     @ sextets src"

text \<open>\<^verbatim>\<open>enc.EncodeToString(src)\<close> for an alphabet \<open>enc\<close> without padding.\<close>

definition EncodeToString :: "string \<Rightarrow> 8 word list \<Rightarrow> string" where
  "EncodeToString enc src = map (\<lambda>i. enc ! i) (sextets src)"

text \<open>
  The decoding table of an alphabet: the position of a character, \<open>None\<close> where Go's
  table holds \<^verbatim>\<open>0xff\<close>.
\<close>

fun decodeMap :: "string \<Rightarrow> char \<Rightarrow> nat option" where
  "decodeMap [] c = None"
| "decodeMap (x # enc) c =
     (if x = c then Some 0 else map_option Suc (decodeMap enc c))"

text \<open>
  Four groups give back three bytes; two or three groups at the end give one or two
  bytes (the decoder is not strict: the unused low bits are not looked at); a single
  group at the end is corrupt input.
\<close>

fun quanta :: "nat list \<Rightarrow> 8 word list option" where
  "quanta [] = Some []"
| "quanta [s0] = None"
| "quanta [s0, s1] =
     (let val = s0 * 262144 + s1 * 4096 in Some [of_nat (val div 65536)])"
| "quanta [s0, s1, s2] =
     (let val = s0 * 262144 + s1 * 4096 + s2 * 64
      in Some [of_nat (val div 65536), of_nat (val div 256)])"
| "quanta (s0 # s1 # s2 # s3 # rest) =
     (let val = s0 * 262144 + s1 * 4096 + s2 * 64 + s3
      in map_option (\<lambda>bs. of_nat (val div 65536) # of_nat (val div 256) # of_nat val # bs)
           (quanta rest))"

text \<open>
  \<^verbatim>\<open>enc.DecodeString(s)\<close> for an alphabet without padding: carriage returns and line
  feeds are passed over, every other character must be in the alphabet.
\<close>

fun decodeChars :: "string \<Rightarrow> string \<Rightarrow> nat list option" where
  "decodeChars enc [] = Some []"
| "decodeChars enc (c # s) =
     (case decodeMap enc c of
        Some out \<Rightarrow> map_option ((#) out) (decodeChars enc s)
      | None \<Rightarrow>
          if c = CHR 0x0A \<or> c = CHR 0x0D then decodeChars enc s else None)"

definition DecodeString :: "string \<Rightarrow> string \<Rightarrow> error + 8 word list" where
  "DecodeString enc s =
     (case decodeChars enc s of
        None \<Rightarrow> Inl CorruptInputError
      | Some gs \<Rightarrow> (case quanta gs of None \<Rightarrow> Inl CorruptInputError | Some bs \<Rightarrow> Inr bs))"

text \<open>
  \<^verbatim>\<open>EtcdBytes.ToString\<close> uses \<^verbatim>\<open>base64.RawURLEncoding\<close>, \<^verbatim>\<open>EtcdBytes.FromString\<close>
  uses \<^verbatim>\<open>base64.RawStdEncoding\<close>.
\<close>

definition EtcdBytes_ToString :: "EtcdBytes ptr \<Rightarrow> string option" where
  "EtcdBytes_ToString e =
     (if e = nil then Some [] else map_option (EncodeToString encodeURL) (deref [] e))"

definition EtcdBytes_FromString :: "string \<Rightarrow> error + EtcdBytes" where
  "EtcdBytes_FromString v =
     (case DecodeString encodeStd v of Inl err \<Rightarrow> Inl err | Inr b \<Rightarrow> Inr b)"

subsection \<open>The constructors\<close>

text \<open>
  For each type: the address of the get variable, the address of the delete variable,
  and the address of a new variable holding the argument.
\<close>

definition GetTime :: "EtcdTime ptr" where "GetTime = getOp"
definition DeleteTime :: "EtcdTime ptr" where "DeleteTime = deleteOp"
definition SetTime :: "Time \<Rightarrow> EtcdTime ptr" where "SetTime t = alloc t"

definition GetUuid :: "EtcdUuid ptr" where "GetUuid = getOp"
definition DeleteUuid :: "EtcdUuid ptr" where "DeleteUuid = deleteOp"
definition SetUuid :: "string \<Rightarrow> EtcdUuid ptr" where "SetUuid u = alloc u"

definition GetString :: "EtcdString ptr" where "GetString = getOp"
definition DeleteString :: "EtcdString ptr" where "DeleteString = deleteOp"
definition SetString :: "string \<Rightarrow> EtcdString ptr" where "SetString s = alloc s"

definition GetInt :: "EtcdInt ptr" where "GetInt = getOp"
definition DeleteInt :: "EtcdInt ptr" where "DeleteInt = deleteOp"
definition SetInt :: "64 word \<Rightarrow> EtcdInt ptr" where "SetInt i = alloc i"

definition GetUint :: "EtcdUint ptr" where "GetUint = getOp"
definition DeleteUint :: "EtcdUint ptr" where "DeleteUint = deleteOp"
definition SetUint :: "64 word \<Rightarrow> EtcdUint ptr" where "SetUint u = alloc u"

definition GetBool :: "EtcdBool ptr" where "GetBool = getOp"
definition DeleteBool :: "EtcdBool ptr" where "DeleteBool = deleteOp"
definition SetBool :: "bool \<Rightarrow> EtcdBool ptr" where "SetBool b = alloc b"

definition GetBytes :: "EtcdBytes ptr" where "GetBytes = getOp"
definition DeleteBytes :: "EtcdBytes ptr" where "DeleteBytes = deleteOp"
definition SetBytes :: "8 word list \<Rightarrow> EtcdBytes ptr" where "SetBytes b = alloc b"

section \<open>The interface and the records\<close>

text \<open>
  A value of the interface \<^verbatim>\<open>EtcdValue\<close> is a pointer of one of the seven types; each
  method of the interface is the method of that type.
\<close>

datatype EtcdValue =
    TimeValue "EtcdTime ptr"
  | UuidValue "EtcdUuid ptr"
  | StringValue "EtcdString ptr"
  | IntValue "EtcdInt ptr"
  | UintValue "EtcdUint ptr"
  | BoolValue "EtcdBool ptr"
  | BytesValue "EtcdBytes ptr"

fun EtcdValue_IsGet :: "EtcdValue \<Rightarrow> bool" where
  "EtcdValue_IsGet (TimeValue e) = IsGet e"
| "EtcdValue_IsGet (UuidValue e) = IsGet e"
| "EtcdValue_IsGet (StringValue e) = IsGet e"
| "EtcdValue_IsGet (IntValue e) = IsGet e"
| "EtcdValue_IsGet (UintValue e) = IsGet e"
| "EtcdValue_IsGet (BoolValue e) = IsGet e"
| "EtcdValue_IsGet (BytesValue e) = IsGet e"

fun EtcdValue_IsSet :: "EtcdValue \<Rightarrow> bool" where
  "EtcdValue_IsSet (TimeValue e) = IsSet e"
| "EtcdValue_IsSet (UuidValue e) = IsSet e"
| "EtcdValue_IsSet (StringValue e) = IsSet e"
| "EtcdValue_IsSet (IntValue e) = IsSet e"
| "EtcdValue_IsSet (UintValue e) = IsSet e"
| "EtcdValue_IsSet (BoolValue e) = IsSet e"
| "EtcdValue_IsSet (BytesValue e) = IsSet e"

fun EtcdValue_IsDelete :: "EtcdValue \<Rightarrow> bool" where
  "EtcdValue_IsDelete (TimeValue e) = IsDelete e"
| "EtcdValue_IsDelete (UuidValue e) = IsDelete e"
| "EtcdValue_IsDelete (StringValue e) = IsDelete e"
| "EtcdValue_IsDelete (IntValue e) = IsDelete e"
| "EtcdValue_IsDelete (UintValue e) = IsDelete e"
| "EtcdValue_IsDelete (BoolValue e) = IsDelete e"
| "EtcdValue_IsDelete (BytesValue e) = IsDelete e"

fun EtcdValue_ToString :: "EtcdValue \<Rightarrow> string option" where
  "EtcdValue_ToString (TimeValue e) = EtcdTime_ToString e"
| "EtcdValue_ToString (UuidValue e) = EtcdUuid_ToString e"
| "EtcdValue_ToString (StringValue e) = EtcdString_ToString e"
| "EtcdValue_ToString (IntValue e) = EtcdInt_ToString e"
| "EtcdValue_ToString (UintValue e) = EtcdUint_ToString e"
| "EtcdValue_ToString (BoolValue e) = EtcdBool_ToString e"
| "EtcdValue_ToString (BytesValue e) = EtcdBytes_ToString e"

text \<open>
  \<^verbatim>\<open>reflect.New\<close> of the pointer's element type followed by \<^verbatim>\<open>FromString\<close>: the
  pointer to the fresh variable with the parsed value, or the error. The argument
  \<open>probe\<close> only gives the type.
\<close>

fun EtcdValue_FromString :: "EtcdValue \<Rightarrow> string \<Rightarrow> error + EtcdValue" where
  "EtcdValue_FromString (TimeValue e) s = map_sum id (\<lambda>v. TimeValue (alloc v)) (EtcdTime_FromString s)"
| "EtcdValue_FromString (UuidValue e) s = map_sum id (\<lambda>v. UuidValue (alloc v)) (EtcdUuid_FromString s)"
| "EtcdValue_FromString (StringValue e) s = map_sum id (\<lambda>v. StringValue (alloc v)) (EtcdString_FromString s)"
| "EtcdValue_FromString (IntValue e) s = map_sum id (\<lambda>v. IntValue (alloc v)) (EtcdInt_FromString s)"
| "EtcdValue_FromString (UintValue e) s = map_sum id (\<lambda>v. UintValue (alloc v)) (EtcdUint_FromString s)"
| "EtcdValue_FromString (BoolValue e) s = map_sum id (\<lambda>v. BoolValue (alloc v)) (EtcdBool_FromString s)"
| "EtcdValue_FromString (BytesValue e) s = map_sum id (\<lambda>v. BytesValue (alloc v)) (EtcdBytes_FromString s)"

text \<open>The pointer to a fresh zero value, and the nil pointer, of the type of \<open>probe\<close>.\<close>

fun newZero :: "EtcdValue \<Rightarrow> EtcdValue" where
  "newZero (TimeValue e) = TimeValue (alloc zeroTime)"
| "newZero (UuidValue e) = UuidValue (alloc [])"
| "newZero (StringValue e) = StringValue (alloc [])"
| "newZero (IntValue e) = IntValue (alloc 0)"
| "newZero (UintValue e) = UintValue (alloc 0)"
| "newZero (BoolValue e) = BoolValue (alloc False)"
| "newZero (BytesValue e) = BytesValue (alloc [])"

fun nilOf :: "EtcdValue \<Rightarrow> EtcdValue" where
  "nilOf (TimeValue e) = TimeValue nil"
| "nilOf (UuidValue e) = UuidValue nil"
| "nilOf (StringValue e) = StringValue nil"
| "nilOf (IntValue e) = IntValue nil"
| "nilOf (UintValue e) = UintValue nil"
| "nilOf (BoolValue e) = BoolValue nil"
| "nilOf (BytesValue e) = BytesValue nil"

text \<open>
  What reflection sees of a field or of an element of a slice: a pointer whose type
  implements \<^verbatim>\<open>EtcdValue\<close>, a struct with its fields, a slice with its elements, or
  anything else. A field of a struct comes with the way its name is declared and with
  the result of \<^verbatim>\<open>Tag.Lookup("path")\<close>.
\<close>

datatype access = Exported | Unexported | UnexportedEmbedded

datatype field =
    Ptr EtcdValue
  | Struct "(access \<times> string option \<times> field) list"
  | Slice "field list"
  | Other

type_synonym fields = "(access \<times> string option \<times> field) list"

text \<open>
  Package \<^verbatim>\<open>reflect\<close> marks a value obtained through an unexported field as
  read-only, and \<^verbatim>\<open>Value.Interface\<close> panics on a read-only value. \<^verbatim>\<open>Value.Field\<close>
  keeps the mark of the struct when it is the sticky one and adds a mark for an
  unexported field: the sticky one, or the one of an embedded field, which the fields
  of the embedded struct do not inherit. \<^verbatim>\<open>Value.Index\<close> keeps either mark. The
  walkers carry the sticky mark of the struct they walk as \<open>ro\<close>; \<open>readOnly\<close> says
  whether the field itself is marked, \<open>stickyRO\<close> is the mark its own fields inherit.
\<close>

definition readOnly :: "bool \<Rightarrow> access \<Rightarrow> bool" where
  "readOnly ro a = (case a of Exported \<Rightarrow> ro | Unexported \<Rightarrow> True | UnexportedEmbedded \<Rightarrow> True)"

definition stickyRO :: "bool \<Rightarrow> access \<Rightarrow> bool" where
  "stickyRO ro a = (case a of Exported \<Rightarrow> ro | Unexported \<Rightarrow> True | UnexportedEmbedded \<Rightarrow> ro)"

datatype Op =
    OpGet string
  | OpGetPrefix string
  | OpPut string string
  | OpDelete string
  | OpDeletePrefix string

text \<open>
  A run-time panic is not an error value of the Go program: a function that can do
  either answers with a \<open>failure\<close>.
\<close>

datatype failure = Err error | Panic

text \<open>
  \<^verbatim>\<open>GenerateUniqueID\<close> returns a new random UUID at every call. The model is given the
  sequence of identifiers the generator is going to return and takes them in order.
\<close>

type_synonym uuids = "nat \<Rightarrow> string"

definition GenerateUniqueID :: "uuids \<Rightarrow> string \<times> uuids" where
  "GenerateUniqueID src = (src 0, \<lambda>n. src (Suc n))"

section \<open>The write path\<close>

text \<open>
  The loop of \<^verbatim>\<open>createSliceSetOps\<close>; \<open>ro\<close> is the mark of the slice, which its
  elements inherit. For an element that is a pointer implementing \<^verbatim>\<open>EtcdValue\<close> the
  condition calls \<^verbatim>\<open>field.Interface()\<close>, which panics on a read-only element. The
  variable \<^verbatim>\<open>etcdKey\<close> is assigned in the body of the loop and keeps its value for
  the next element.
\<close>

fun createSliceSetOps_loop :: "field list \<Rightarrow> bool \<Rightarrow> string \<Rightarrow> uuids \<Rightarrow> failure + (Op list \<times> uuids)" where
  "createSliceSetOps_loop [] ro etcdKey src = Inr ([], src)"
| "createSliceSetOps_loop (Ptr iface # rest) ro etcdKey src =
     (if ro then Inl Panic
      else if EtcdValue_IsSet iface then
        (case GenerateUniqueID src of (u, src') \<Rightarrow>
           (case EtcdValue_ToString iface of
              None \<Rightarrow> Inl Panic
            | Some s \<Rightarrow>
                (case createSliceSetOps_loop rest ro (etcdKey @ ''/'' @ u) src' of
                   Inl e \<Rightarrow> Inl e
                 | Inr (etcdOps, src'') \<Rightarrow> Inr (OpPut (etcdKey @ ''/'' @ u) s # etcdOps, src''))))
      else createSliceSetOps_loop rest ro etcdKey src)"
| "createSliceSetOps_loop (Struct fs # rest) ro etcdKey src = Inl (Err UnsupportedElementKind)"
| "createSliceSetOps_loop (Slice es # rest) ro etcdKey src = createSliceSetOps_loop rest ro etcdKey src"
| "createSliceSetOps_loop (Other # rest) ro etcdKey src = createSliceSetOps_loop rest ro etcdKey src"

text \<open>
  \<^verbatim>\<open>createSliceSetOps\<close>. The test on a slice of length one calls
  \<^verbatim>\<open>field.Interface()\<close> too when the element is a pointer implementing
  \<^verbatim>\<open>EtcdValue\<close>.
\<close>

definition createSliceSetOps :: "field list \<Rightarrow> bool \<Rightarrow> string \<Rightarrow> bool \<Rightarrow> uuids \<Rightarrow> failure + (Op list \<times> uuids)" where
  "createSliceSetOps val ro etcdKey inslice src =
     (if length val = 1 then
        (case hd val of
           Ptr iface \<Rightarrow>
             if ro then Inl Panic
             else if EtcdValue_IsDelete iface
             then Inr ([OpDeletePrefix (etcdKey @ ''/'')], src)
             else createSliceSetOps_loop val ro etcdKey src
         | _ \<Rightarrow> createSliceSetOps_loop val ro etcdKey src)
      else createSliceSetOps_loop val ro etcdKey src)"

text \<open>
  \<^verbatim>\<open>createStructSetOps\<close>; \<open>ro\<close> is the sticky mark of the struct. The table
  \<^verbatim>\<open>pathvar\<close> is a Go map, shared with the caller: the function returns it as it
  leaves it. The key of a tagged field is resolved first; then a pointer implementing
  \<^verbatim>\<open>EtcdValue\<close> is read with \<^verbatim>\<open>field.Interface()\<close>, which panics on a read-only
  field.
\<close>

fun createStructSetOps :: "fields \<Rightarrow> bool \<Rightarrow> pathvars \<Rightarrow> bool \<Rightarrow> uuids \<Rightarrow> failure + (Op list \<times> pathvars \<times> uuids)" where
  "createStructSetOps [] ro pathvar inslice src = Inr ([], pathvar, src)"
| "createStructSetOps ((a, None, field) # rest) ro pathvar inslice src =
     createStructSetOps rest ro pathvar inslice src"
| "createStructSetOps ((a, Some tag, Ptr iface) # rest) ro pathvar inslice src =
     (case pathReplace tag pathvar inslice of
        Inl err \<Rightarrow> Inl (Err err)
      | Inr etcdKey \<Rightarrow>
          if readOnly ro a then Inl Panic
          else if EtcdValue_IsDelete iface then
            (case createStructSetOps rest ro pathvar inslice src of
               Inl e \<Rightarrow> Inl e
             | Inr (etcdOps, pv, src') \<Rightarrow> Inr (OpDelete etcdKey # etcdOps, pv, src'))
          else if EtcdValue_IsSet iface then
            (case EtcdValue_ToString iface of
               None \<Rightarrow> Inl Panic
             | Some s \<Rightarrow>
                 (case createStructSetOps rest ro pathvar inslice src of
                    Inl e \<Rightarrow> Inl e
                  | Inr (etcdOps, pv, src') \<Rightarrow> Inr (OpPut etcdKey s # etcdOps, pv, src')))
          else createStructSetOps rest ro pathvar inslice src)"
| "createStructSetOps ((a, Some tag, Struct fs) # rest) ro pathvar inslice src =
     (case pathReplace tag pathvar inslice of
        Inl err \<Rightarrow> Inl (Err err)
      | Inr etcdKey \<Rightarrow>
          (case createStructSetOps fs (stickyRO ro a) (pathvar(''@'' \<mapsto> etcdKey)) inslice src of
             Inl e \<Rightarrow> Inl e
           | Inr (newOps, pv, src') \<Rightarrow>
               (case createStructSetOps rest ro pv inslice src' of
                  Inl e \<Rightarrow> Inl e
                | Inr (etcdOps, pv', src'') \<Rightarrow> Inr (newOps @ etcdOps, pv', src''))))"
| "createStructSetOps ((a, Some tag, Slice es) # rest) ro pathvar inslice src =
     (case pathReplace tag pathvar inslice of
        Inl err \<Rightarrow> Inl (Err err)
      | Inr etcdKey \<Rightarrow>
          (case createSliceSetOps es (readOnly ro a) etcdKey True src of
             Inl e \<Rightarrow> Inl e
           | Inr (newOps, src') \<Rightarrow>
               (case createStructSetOps rest ro pathvar inslice src' of
                  Inl e \<Rightarrow> Inl e
                | Inr (etcdOps, pv', src'') \<Rightarrow> Inr (newOps @ etcdOps, pv', src''))))"
| "createStructSetOps ((a, Some tag, Other) # rest) ro pathvar inslice src =
     (case pathReplace tag pathvar inslice of
        Inl err \<Rightarrow> Inl (Err err)
      | Inr etcdKey \<Rightarrow> createStructSetOps rest ro pathvar inslice src)"

section \<open>The read path\<close>

text \<open>
  A response to a get operation is its list of key-value pairs
  (\<^verbatim>\<open>resp.GetResponseRange().Kvs\<close>).
\<close>

type_synonym ResponseOp = "(string \<times> string) list"

text \<open>
  A callback is a Go closure over the reflected field it was made for. Applied to a
  response it assigns to that field and returns an error or nil. The model of a
  callback takes the fields of the struct the walk started from and returns them after
  the assignment, with the returned error. A callback is only made for a field that
  \<^verbatim>\<open>field.Interface()\<close> could read, so its assignments are to settable fields.
\<close>

type_synonym callback = "ResponseOp \<Rightarrow> fields \<Rightarrow> error option \<times> fields"

definition setField :: "nat \<Rightarrow> field \<Rightarrow> fields \<Rightarrow> fields" where
  "setField i f fs =
     (if i < length fs then fs[i := (fst (fs ! i), fst (snd (fs ! i)), f)] else fs)"

text \<open>
  The callback of a leaf: the field is first pointed at a fresh zero value; with no
  pair in the response it is set to nil, otherwise the first value is parsed into the
  fresh variable.
\<close>

definition leafCallback :: "nat \<Rightarrow> EtcdValue \<Rightarrow> callback" where
  "leafCallback i probe resp fs =
     (case resp of
        [] \<Rightarrow> (None, setField i (Ptr (nilOf probe)) fs)
      | kv # _ \<Rightarrow>
          (case EtcdValue_FromString probe (snd kv) of
             Inl err \<Rightarrow> (Some err, setField i (Ptr (newZero probe)) fs)
           | Inr v \<Rightarrow> (None, setField i (Ptr v) fs)))"

text \<open>
  The callback of a collection: the slice is emptied, then every value of the response
  is parsed into a new element and appended; the first parse error stops the loop.
\<close>

fun appendParsed :: "EtcdValue \<Rightarrow> ResponseOp \<Rightarrow> field list \<Rightarrow> error option \<times> field list" where
  "appendParsed probe [] val = (None, val)"
| "appendParsed probe (kv # kvs) val =
     (case EtcdValue_FromString probe (snd kv) of
        Inl err \<Rightarrow> (Some err, val)
      | Inr v \<Rightarrow> appendParsed probe kvs (val @ [Ptr v]))"

definition sliceCallback :: "nat \<Rightarrow> EtcdValue \<Rightarrow> callback" where
  "sliceCallback i probe resp fs =
     (case appendParsed probe resp [] of (err, val) \<Rightarrow> (err, setField i (Slice val) fs))"

text \<open>A callback made for a field of the nested struct at position \<open>i\<close>.\<close>

definition nestedCallback :: "nat \<Rightarrow> callback \<Rightarrow> callback" where
  "nestedCallback i cb resp fs =
     (if i < length fs then
        (case snd (snd (fs ! i)) of
           Struct sub \<Rightarrow> (case cb resp sub of (err, sub') \<Rightarrow> (err, setField i (Struct sub') fs))
         | _ \<Rightarrow> (None, fs))
      else (None, fs))"

text \<open>
  \<^verbatim>\<open>createSliceGetOps\<close>, for the slice at position \<open>i\<close> of the struct, with the mark
  \<open>ro\<close> of the slice: only the first element is looked at, and read with
  \<^verbatim>\<open>field.Interface()\<close> when it is a pointer implementing \<^verbatim>\<open>EtcdValue\<close>.
\<close>

definition createSliceGetOps :: "nat \<Rightarrow> field list \<Rightarrow> bool \<Rightarrow> string \<Rightarrow> bool \<Rightarrow> failure + (Op list \<times> callback list)" where
  "createSliceGetOps i val ro etcdKey inslice =
     (case val of
        [] \<Rightarrow> Inr ([], [])
      | field # _ \<Rightarrow>
          (case field of
             Ptr iface \<Rightarrow>
               if ro then Inl Panic
               else if EtcdValue_IsGet iface
               then Inr ([OpGetPrefix (etcdKey @ ''/'')], [sliceCallback i iface])
               else Inr ([], [])
           | _ \<Rightarrow> Inl (Err InvalidCollectionElement)))"

text \<open>
  \<^verbatim>\<open>createStructGetOps\<close>, from field number \<open>i\<close> on; \<open>ro\<close> is the sticky mark of
  the struct. The table \<^verbatim>\<open>pathvar\<close> is returned as the function leaves it. The
  condition of the first branch calls \<^verbatim>\<open>field.Interface()\<close> on every pointer
  implementing \<^verbatim>\<open>EtcdValue\<close>, whatever its intent.
\<close>

fun createStructGetOps_from :: "nat \<Rightarrow> fields \<Rightarrow> bool \<Rightarrow> pathvars \<Rightarrow> bool \<Rightarrow> failure + (Op list \<times> callback list \<times> pathvars)" where
  "createStructGetOps_from i [] ro pathvar inslice = Inr ([], [], pathvar)"
| "createStructGetOps_from i ((a, None, field) # rest) ro pathvar inslice =
     createStructGetOps_from (Suc i) rest ro pathvar inslice"
| "createStructGetOps_from i ((a, Some tag, Ptr iface) # rest) ro pathvar inslice =
     (case pathReplace tag pathvar inslice of
        Inl err \<Rightarrow> Inl (Err err)
      | Inr etcdKey \<Rightarrow>
          if readOnly ro a then Inl Panic
          else if EtcdValue_IsGet iface then
            (case createStructGetOps_from (Suc i) rest ro pathvar inslice of
               Inl e \<Rightarrow> Inl e
             | Inr (etcdOps, callbacks, pv) \<Rightarrow>
                 Inr (OpGet etcdKey # etcdOps, leafCallback i iface # callbacks, pv))
          else createStructGetOps_from (Suc i) rest ro pathvar inslice)"
| "createStructGetOps_from i ((a, Some tag, Struct fs) # rest) ro pathvar inslice =
     (case pathReplace tag pathvar inslice of
        Inl err \<Rightarrow> Inl (Err err)
      | Inr etcdKey \<Rightarrow>
          (case createStructGetOps_from 0 fs (stickyRO ro a) (pathvar(''@'' \<mapsto> etcdKey)) inslice of
             Inl e \<Rightarrow> Inl e
           | Inr (newOps, newCallbacks, pv) \<Rightarrow>
               (case createStructGetOps_from (Suc i) rest ro pv inslice of
                  Inl e \<Rightarrow> Inl e
                | Inr (etcdOps, callbacks, pv') \<Rightarrow>
                    Inr (newOps @ etcdOps, map (nestedCallback i) newCallbacks @ callbacks, pv'))))"
| "createStructGetOps_from i ((a, Some tag, Slice es) # rest) ro pathvar inslice =
     (case pathReplace tag pathvar inslice of
        Inl err \<Rightarrow> Inl (Err err)
      | Inr etcdKey \<Rightarrow>
          (case createSliceGetOps i es (readOnly ro a) etcdKey True of
             Inl e \<Rightarrow> Inl e
           | Inr (newOps, newCallbacks) \<Rightarrow>
               (case createStructGetOps_from (Suc i) rest ro (pathvar(''@'' \<mapsto> etcdKey)) inslice of
                  Inl e \<Rightarrow> Inl e
                | Inr (etcdOps, callbacks, pv') \<Rightarrow>
                    Inr (newOps @ etcdOps, newCallbacks @ callbacks, pv'))))"
| "createStructGetOps_from i ((a, Some tag, Other) # rest) ro pathvar inslice =
     (case pathReplace tag pathvar inslice of
        Inl err \<Rightarrow> Inl (Err err)
      | Inr etcdKey \<Rightarrow> createStructGetOps_from (Suc i) rest ro pathvar inslice)"

definition createStructGetOps :: "fields \<Rightarrow> bool \<Rightarrow> pathvars \<Rightarrow> bool \<Rightarrow> failure + (Op list \<times> callback list \<times> pathvars)" where
  "createStructGetOps val ro pathvar inslice = createStructGetOps_from 0 val ro pathvar inslice"

section \<open>Get and Set\<close>

text \<open>
  The argument \<^verbatim>\<open>g interface{}\<close> as the two tests on it see it: not a pointer, a
  pointer whose element is not a struct, or a pointer to a struct with its fields.
\<close>

datatype arg = NotPointer | PointerToNonStruct | PointerToStruct fields

text \<open>
  The store is outside the package: \<open>commit\<close> stands for
  \<^verbatim>\<open>c.client.Txn(ctx).If().Then(etcdOps...).Commit()\<close> and answers with an error or with
  the list of responses.
\<close>

type_synonym store = "Op list \<Rightarrow> error + ResponseOp list"

text \<open>
  The loop \<^verbatim>\<open>for i, r := range resp.Responses\<close>: the callback of each response in
  turn; the error of a callback is replaced by \<open>FieldDecodeError\<close> and ends the loop.
\<close>

fun applyCallbacks :: "callback list \<Rightarrow> ResponseOp list \<Rightarrow> fields \<Rightarrow> failure option \<times> fields" where
  "applyCallbacks callbacks [] fs = (None, fs)"
| "applyCallbacks [] (r # rs) fs = (Some Panic, fs)"
| "applyCallbacks (cb # callbacks) (r # rs) fs =
     (case cb r fs of
        (Some err, fs') \<Rightarrow> (Some (Err FieldDecodeError), fs')
      | (None, fs') \<Rightarrow> applyCallbacks callbacks rs fs')"

text \<open>
  \<^verbatim>\<open>Get\<close>. The variable table is a Go map and may be nil (\<open>None\<close>): the assignment
  \<^verbatim>\<open>pathvar["@"] = ""\<close> to a nil map panics. The struct the pointer refers to carries
  no read-only mark. The result is the returned error (\<open>None\<close> for nil), or the panic,
  and the argument as the call leaves it.
\<close>

definition Get :: "store \<Rightarrow> arg \<Rightarrow> pathvars option \<Rightarrow> failure option \<times> arg" where
  "Get commit g pathvar =
     (case g of
        NotPointer \<Rightarrow> (Some (Err InvalidArgumentNotPointer), g)
      | PointerToNonStruct \<Rightarrow> (Some (Err InvalidArgumentNotStruct), g)
      | PointerToStruct val \<Rightarrow>
          (case pathvar of
             None \<Rightarrow> (Some Panic, g)
           | Some pv \<Rightarrow>
               (case createStructGetOps val False (pv(''@'' \<mapsto> [])) False of
                  Inl f \<Rightarrow> (Some f, g)
                | Inr (etcdOps, callbacks, pv') \<Rightarrow>
                    (case commit etcdOps of
                       Inl err \<Rightarrow> (Some (Err err), g)
                     | Inr responses \<Rightarrow>
                         if length responses \<noteq> length callbacks
                         then (Some (Err ResponseCountMismatch), g)
                         else (case applyCallbacks callbacks responses val of
                                 (res, val') \<Rightarrow> (res, PointerToStruct val'))))))"

text \<open>
  \<^verbatim>\<open>Set\<close>. It only reads the record; the identifiers come from \<open>src\<close>.
\<close>

definition Set :: "store \<Rightarrow> uuids \<Rightarrow> arg \<Rightarrow> pathvars option \<Rightarrow> failure option" where
  "Set commit src s pathvar =
     (case s of
        NotPointer \<Rightarrow> Some (Err InvalidArgumentNotPointer)
      | PointerToNonStruct \<Rightarrow> Some (Err InvalidArgumentNotStruct)
      | PointerToStruct val \<Rightarrow>
          (case pathvar of
             None \<Rightarrow> Some Panic
           | Some pv \<Rightarrow>
               (case createStructSetOps val False (pv(''@'' \<mapsto> [])) False src of
                  Inl f \<Rightarrow> Some f
                | Inr (etcdOps, pv', src') \<Rightarrow>
                    (case commit etcdOps of
                       Inl err \<Rightarrow> Some (Err err)
                     | Inr responses \<Rightarrow>
                         if length responses \<noteq> length etcdOps
                         then Some (Err ResponseCountMismatch)
                         else None))))"

section \<open>The times that the layout can carry\<close>

text \<open>
  The layout \<^verbatim>\<open>time.RFC3339\<close> has four digits for the year, no fraction of a second,
  and a zone in hours and minutes. A time is carried whole when its year is within
  0 to 9999, it has no nanoseconds, and its offset is a number of whole minutes of at
  most 24 hours; the other bounds hold of every \<^verbatim>\<open>time.Time\<close>.
\<close>

definition rfc3339_whole_second :: "Time \<Rightarrow> bool" where
  "rfc3339_whole_second t \<longleftrightarrow>
     0 \<le> year t \<and> year t \<le> 9999 \<and> 1 \<le> month t \<and> month t \<le> 12 \<and>
     1 \<le> day t \<and> day t \<le> daysIn (month t) (year t) \<and>
     hour t < 24 \<and> minute t < 60 \<and> second t < 60 \<and> nanosecond t = 0 \<and>
     offset t mod 60 = 0 \<and> \<bar>offset t\<bar> \<le> 86400"

section \<open>Intent classification\<close>

lemmas constructor_defs =
  GetTime_def DeleteTime_def SetTime_def GetUuid_def DeleteUuid_def SetUuid_def
  GetString_def DeleteString_def SetString_def GetInt_def DeleteInt_def SetInt_def
  GetUint_def DeleteUint_def SetUint_def GetBool_def DeleteBool_def SetBool_def
  GetBytes_def DeleteBytes_def SetBytes_def

text \<open>
  C1. The claim asks that a pointer built by the fetch constructor reports
  \<open>IsGet\<close> and neither \<open>IsSet\<close> nor \<open>IsDelete\<close>, and that \<open>IsSet\<close> holds exactly for
  the pointers that are neither sentinel nor null. The method \<open>IsSet\<close> of the source
  compares the receiver with the delete variable and with \<open>nil\<close> only: evaluated at
  the pointer returned by \<open>GetString\<close> it answers true, together with \<open>IsGet\<close>.
\<close>

theorem IsSet_GetString:
  "IsSet GetString \<and> IsGet GetString \<and> \<not> IsDelete GetString \<and>
   IsSet GetTime \<and> IsSet GetUuid \<and> IsSet GetInt \<and> IsSet GetUint \<and>
   IsSet GetBool \<and> IsSet GetBytes"
  by (simp add: IsSet_def IsGet_def IsDelete_def constructor_defs)

section \<open>Path resolution: results\<close>

lemma pathReplace_loop_first:
  "find (unresolvable pathvars inslice) pathArr = Some p \<Longrightarrow>
   pathReplace_loop pathArr path pathvars inslice =
     Inl (if TrimPrefix p '':'' = ''@'' \<and> inslice then InvalidContext else MissingVariable p)"
proof (induction pathArr arbitrary: path)
  case Nil
  then show ?case by simp
next
  case (Cons q pathArr)
  show ?case
  proof (cases "unresolvable pathvars inslice q")
    case True
    with Cons.prems have "q = p" by simp
    with True show ?thesis
      by (auto simp: unresolvable_def)
  next
    case False
    with Cons.prems have rest: "find (unresolvable pathvars inslice) pathArr = Some p"
      by simp
    show ?thesis
    proof (cases "HasPrefix q '':''")
      case True
      with False obtain val where "pathvars (TrimPrefix q '':'') = Some val"
        and "\<not> (TrimPrefix q '':'' = ''@'' \<and> inslice)"
        by (auto simp: unresolvable_def)
      with True show ?thesis
        using Cons.IH [OF rest, of "Replace path q val"] by simp
    next
      case False
      then show ?thesis
        using Cons.IH [OF rest, of path] by simp
    qed
  qed
qed

lemma pathReplace_loop_none:
  "find (unresolvable pathvars inslice) pathArr = None \<Longrightarrow>
   \<exists>key. pathReplace_loop pathArr path pathvars inslice = Inr key"
proof (induction pathArr arbitrary: path)
  case Nil
  then show ?case by simp
next
  case (Cons q pathArr)
  then show ?case
    by (auto simp: unresolvable_def split: if_splits option.splits)
qed

text \<open>
  C7, as the code has it. The example of the claim resolves to \<open>/a/5/b\<close>. The two
  failures are decided piece by piece, from the left: the resolution fails exactly when
  some piece is unresolvable, and the first such piece chooses the error,
  \<open>InvalidContext\<close> when it is the accumulator piece inside a collection and
  \<open>MissingVariable\<close> otherwise.
\<close>

theorem pathReplace_first_unresolvable:
  "pathReplace ''/a/:x/b'' [''x'' \<mapsto> ''5''] False = Inr ''/a/5/b'' \<and>
   (find (unresolvable pathvars inslice) (Split path CHR ''/'') = Some p \<longrightarrow>
      pathReplace path pathvars inslice =
        Inl (if p = '':@'' \<and> inslice then InvalidContext else MissingVariable p)) \<and>
   (find (unresolvable pathvars inslice) (Split path CHR ''/'') = None \<longrightarrow>
      (\<exists>key. pathReplace path pathvars inslice = Inr key))"
proof (intro conjI impI)
  show "pathReplace ''/a/:x/b'' [''x'' \<mapsto> ''5''] False = Inr ''/a/5/b''"
    by code_simp
next
  assume f: "find (unresolvable pathvars inslice) (Split path CHR ''/'') = Some p"
  then have "unresolvable pathvars inslice p"
    by (auto simp: find_Some_iff)
  then have "TrimPrefix p '':'' = ''@'' \<longleftrightarrow> p = '':@''"
    by (cases p) (auto simp: unresolvable_def HasPrefix_def TrimPrefix_def)
  with pathReplace_loop_first [OF f] show
    "pathReplace path pathvars inslice =
       Inl (if p = '':@'' \<and> inslice then InvalidContext else MissingVariable p)"
    by (simp add: pathReplace_def)
next
  assume "find (unresolvable pathvars inslice) (Split path CHR ''/'') = None"
  then show "\<exists>key. pathReplace path pathvars inslice = Inr key"
    unfolding pathReplace_def by (rule pathReplace_loop_none)
qed

theorem pathReplace_first_unresolvable_witness:
  "pathReplace ''/a/:x/b'' [''x'' \<mapsto> ''5''] False = Inr ''/a/5/b'' \<and>
   find (unresolvable [''@'' \<mapsto> ''/k''] True) (Split ''/:y/:@'' CHR ''/'') = Some '':y'' \<and>
   pathReplace ''/:y/:@'' [''@'' \<mapsto> ''/k''] True = Inl (MissingVariable '':y'') \<and>
   find (unresolvable [''@'' \<mapsto> ''/k''] False) (Split '':@/c'' CHR ''/'') = None \<and>
   (\<exists>key. pathReplace '':@/c'' [''@'' \<mapsto> ''/k''] False = Inr key)"
proof -
  have a: "find (unresolvable [''@'' \<mapsto> ''/k''] True) (Split ''/:y/:@'' CHR ''/'') = Some '':y''"
    by (simp add: unresolvable_def HasPrefix_def TrimPrefix_def)
  have b: "find (unresolvable [''@'' \<mapsto> ''/k''] False) (Split '':@/c'' CHR ''/'') = None"
    by (simp add: unresolvable_def HasPrefix_def TrimPrefix_def)
  from a b
    pathReplace_first_unresolvable [of "[''@'' \<mapsto> ''/k'']" True "''/:y/:@''" "'':y''"]
    pathReplace_first_unresolvable [of "[''@'' \<mapsto> ''/k'']" False "'':@/c''" "'':y''"]
  show ?thesis by simp
qed

text \<open>
  C7, as the claim words it, promises \<open>MissingVariable\<close> for every template that names
  a variable the table does not hold, and \<open>InvalidContext\<close> for every template with the
  accumulator piece inside a collection. Inside a collection, with a table that holds
  \<open>@\<close> only, the template \<open>/:@/:y\<close> names the absent \<open>y\<close> and is answered with
  \<open>InvalidContext\<close>, and the template \<open>/:y/:@\<close> has the accumulator piece and is
  answered with \<open>MissingVariable\<close>.
\<close>

theorem pathReplace_errors_overlap:
  "'':y'' \<in> set (Split ''/:@/:y'' CHR ''/'') \<and> HasPrefix '':y'' '':'' \<and>
   [''@'' \<mapsto> ''/k''] (TrimPrefix '':y'' '':'') = None \<and>
   pathReplace ''/:@/:y'' [''@'' \<mapsto> ''/k''] True = Inl InvalidContext \<and>
   '':@'' \<in> set (Split ''/:y/:@'' CHR ''/'') \<and>
   pathReplace ''/:y/:@'' [''@'' \<mapsto> ''/k''] True = Inl (MissingVariable '':y'')"
  by (simp add: pathReplace_def HasPrefix_def TrimPrefix_def)

section \<open>The write path: results\<close>

text \<open>
  C2. The claim asks that a leaf with fetch intent produces no operation on the write
  path. The walker tests \<open>IsDelete\<close>, then \<open>IsSet\<close>, and \<open>IsSet\<close> holds of the get
  sentinel: for the record with the one field \<^verbatim>\<open>Name *EtcdString `path:"/k"`\<close> set to
  \<^verbatim>\<open>GetString()\<close> it emits a put of the sentinel's value, the empty string.
\<close>

theorem createStructSetOps_fetch_leaf_puts:
  "createStructSetOps [(Exported, Some ''/k'', Ptr (StringValue GetString))] False pathvar False src =
     Inr ([OpPut ''/k'' []], pathvar, src)"
  by (simp add: pathReplace_def HasPrefix_def GetString_def IsSet_def IsDelete_def
      EtcdString_ToString_def readOnly_def)


text \<open>
  A tagged field that reflection has marked read-only (the field is unexported, or the
  struct was reached through an unexported field that is not embedded): once its key
  is resolved, both walkers panic at \<^verbatim>\<open>field.Interface()\<close> when the field is a
  pointer implementing \<^verbatim>\<open>EtcdValue\<close>, or a collection whose first element is one
  (for the write path: whose only element is one), whatever the intent.
\<close>

lemma read_only_field_panics:
  assumes "readOnly ro a"
    and "pathReplace tag pathvar inslice = Inr etcdKey"
  shows "createStructSetOps ((a, Some tag, Ptr iface) # rest) ro pathvar inslice src = Inl Panic"
    and "createStructSetOps ((a, Some tag, Slice [Ptr iface]) # rest) ro pathvar inslice src =
           Inl Panic"
    and "createStructGetOps_from i ((a, Some tag, Ptr iface) # rest) ro pathvar inslice = Inl Panic"
    and "createStructGetOps_from i ((a, Some tag, Slice (Ptr iface # es)) # rest) ro pathvar inslice =
           Inl Panic"
  using assms by (simp_all add: createSliceSetOps_def createSliceGetOps_def)



section \<open>The accumulator variable: results\<close>

text \<open>
  C4. The claim asks that a field which names the accumulator \<open>:@\<close> after a nested
  record or a collection of the same level resolves against the key of the enclosing
  level. The walkers store the key of a nested record in the shared table under \<open>@\<close>
  and never put the old value back. In the record below, nested under \<open>/g\<close>, the
  leaf \<open>:@/b\<close> follows the nested record \<open>:@/a\<close>: both walkers resolve it to
  \<open>/g/a/b\<close>, not to \<open>/g/b\<close>. The read path also stores the key of a collection, the
  write path does not: after the collection \<open>/s\<close> the leaf \<open>:@/n\<close> is read from
  \<open>/s/n\<close> and written to \<open>/n\<close>.
\<close>

theorem accumulator_kept_for_later_sibling:
  "createStructSetOps
     [(Exported, Some ''/g'', Struct
        [(Exported, Some '':@/a'', Struct
           [(Exported, Some '':@/x'', Ptr (StringValue (SetString ''1'')))]),
         (Exported, Some '':@/b'', Ptr (StringValue (SetString ''2'')))])]
     False [''@'' \<mapsto> []] False src =
   Inr ([OpPut ''/g/a/x'' ''1'', OpPut ''/g/a/b'' ''2''], [''@'' \<mapsto> ''/g/a''], src) \<and>
   map_sum id fst (createStructGetOps
     [(Exported, Some ''/g'', Struct
        [(Exported, Some '':@/a'', Struct
           [(Exported, Some '':@/x'', Ptr (StringValue GetString))]),
         (Exported, Some '':@/b'', Ptr (StringValue GetString))])]
     False [''@'' \<mapsto> []] False) =
   Inr [OpGet ''/g/a/x'', OpGet ''/g/a/b''] \<and>
   map_sum id fst (createStructGetOps
     [(Exported, Some ''/s'', Slice [Ptr (UuidValue GetUuid)]),
      (Exported, Some '':@/n'', Ptr (StringValue GetString))]
     False [''@'' \<mapsto> []] False) =
   Inr [OpGetPrefix ''/s/'', OpGet ''/s/n''] \<and>
   map_sum id fst (createStructSetOps
     [(Exported, Some ''/s'', Slice [Ptr (UuidValue (SetUuid ''u''))]),
      (Exported, Some '':@/n'', Ptr (StringValue (SetString ''v'')))]
     False [''@'' \<mapsto> []] False src) =
   Inr [OpPut (''/s/'' @ src 0) ''u'', OpPut ''/n'' ''v'']"
  by (simp add: pathReplace_def HasPrefix_def TrimPrefix_def constructor_defs
      IsSet_def IsGet_def IsDelete_def EtcdString_ToString_def EtcdUuid_ToString_def
      Replace.simps createStructGetOps_def createSliceGetOps_def createSliceSetOps_def
      GenerateUniqueID_def readOnly_def stickyRO_def)

section \<open>Get and Set: results\<close>

text \<open>
  C8. When the store answers with a number of responses that differs from the number
  of callbacks, \<open>Get\<close> returns \<open>ResponseCountMismatch\<close> and the record is as it was:
  the loop over the callbacks is not entered.
\<close>

theorem Get_ResponseCountMismatch:
  assumes "createStructGetOps val False (pv(''@'' \<mapsto> [])) False = Inr (etcdOps, callbacks, pv')"
    and "commit etcdOps = Inr responses"
    and "length responses \<noteq> length callbacks"
  shows "Get commit (PointerToStruct val) (Some pv) =
           (Some (Err ResponseCountMismatch), PointerToStruct val)"
  using assms by (simp add: Get_def)

theorem Get_ResponseCountMismatch_witness:
  "createStructGetOps [(Exported, Some ''/k'', Ptr (StringValue GetString))] False
       (Map.empty(''@'' \<mapsto> [])) False =
     Inr ([OpGet ''/k''], [leafCallback 0 (StringValue GetString)], [''@'' \<mapsto> []]) \<and>
   (\<lambda>ops. Inr []) [OpGet ''/k''] = (Inr [] :: error + ResponseOp list) \<and>
   length ([] :: ResponseOp list) \<noteq> length [leafCallback 0 (StringValue GetString)] \<and>
   Get (\<lambda>ops. Inr []) (PointerToStruct [(Exported, Some ''/k'', Ptr (StringValue GetString))])
       (Some Map.empty) =
     (Some (Err ResponseCountMismatch),
      PointerToStruct [(Exported, Some ''/k'', Ptr (StringValue GetString))])"
proof -
  have w: "createStructGetOps [(Exported, Some ''/k'', Ptr (StringValue GetString))] False
       (Map.empty(''@'' \<mapsto> [])) False =
     Inr ([OpGet ''/k''], [leafCallback 0 (StringValue GetString)], [''@'' \<mapsto> []])"
    by (simp add: createStructGetOps_def pathReplace_def HasPrefix_def GetString_def IsGet_def
        readOnly_def)
  have c: "(\<lambda>ops. Inr []) [OpGet ''/k''] = (Inr [] :: error + ResponseOp list)"
    by simp
  have l: "length ([] :: ResponseOp list) \<noteq> length [leafCallback 0 (StringValue GetString)]"
    by simp
  from w Get_ResponseCountMismatch [OF w c l] show ?thesis
    by simp
qed

text \<open>
  C10. With a nil variable table and a pointer to a struct, \<open>Get\<close> and \<open>Set\<close> panic at
  the assignment of the accumulator entry, before any operation is built and for
  every store and every record; for \<open>Get\<close> the record is as it was.
\<close>

theorem nil_pathvar_panics:
  "Get commit (PointerToStruct val) None = (Some Panic, PointerToStruct val) \<and>
   Set commit src (PointerToStruct val) None = Some Panic"
  by (simp add: Get_def Set_def)

section \<open>Byte blobs: results\<close>

lemma reassemble:
  assumes "v < 16777216"
  shows "(v div 262144 mod 64) * 262144 + (v div 4096 mod 64) * 4096 + (v div 64 mod 64) * 64 + v mod 64 = (v::nat)"
proof -
  define x0 where "x0 = v div 262144"
  define x1 where "x1 = v div 4096 mod 64"
  define x2 where "x2 = v div 64 mod 64"
  define x3 where "x3 = v mod 64"
  have a: "v = (v div 64) * 64 + x3"
    by (simp add: x3_def)
  have "v div 64 div 64 = v div 4096"
    by (simp add: div_mult2_eq [symmetric])
  then have b: "v div 64 = (v div 4096) * 64 + x2"
    unfolding x2_def by (metis div_mult_mod_eq)
  have "v div 4096 div 64 = v div 262144"
    by (simp add: div_mult2_eq [symmetric])
  then have c: "v div 4096 = x0 * 64 + x1"
    unfolding x0_def x1_def by (metis div_mult_mod_eq)
  have "x0 < 64"
    using assms unfolding x0_def by (simp add: less_mult_imp_div_less)
  then have d: "v div 262144 mod 64 = x0"
    by (simp add: x0_def)
  have "x0 * 262144 + x1 * 4096 + x2 * 64 + x3 = v"
    using a b c by simp
  then show ?thesis
    by (simp add: d x1_def x2_def x3_def)
qed

lemma low_zero_12: "(k * 4096) div 64 mod 64 = (0::nat)" "(k * 4096) mod 64 = (0::nat)"
proof -
  have e: "k * 4096 = (k * 64) * 64" by simp
  show "(k * 4096) div 64 mod 64 = 0" unfolding e by simp
  show "(k * 4096) mod 64 = 0" unfolding e by simp
qed

lemma byte_of_nat_mod: "(of_nat (n mod 256) :: 8 word) = of_nat n"
  by (simp add: word_of_nat_eq_iff take_bit_eq_mod)

lemma byte_less: "unat (a :: 8 word) < 256"
  using unsigned_less [of a, where 'a = nat] by simp

lemma reassemble2:
  fixes k :: nat
  assumes "k < 4096"
  shows "(k * 4096 div 262144 mod 64) * 262144 + (k * 4096 div 4096 mod 64) * 4096 = k * 4096"
  using reassemble [of "k * 4096"] assms low_zero_12 [of k] by simp

lemma reassemble3:
  fixes k :: nat
  assumes "k < 262144"
  shows "(k * 64 div 262144 mod 64) * 262144 + (k * 64 div 4096 mod 64) * 4096
         + (k * 64 div 64 mod 64) * 64 = k * 64"
  using reassemble [of "k * 64"] assms by simp

lemma bytes3:
  fixes a b c :: "8 word"
  defines "v \<equiv> unat a * 65536 + unat b * 256 + unat c"
  shows "v < 16777216" "of_nat (v div 65536) = a" "of_nat (v div 256) = b" "of_nat v = c"
proof -
  have la: "unat a < 256" and lb: "unat b < 256" and lc: "unat c < 256"
    by (rule byte_less)+
  show "v < 16777216" using la lb lc by (simp add: v_def)
  have "v div 65536 = unat a" using lb lc by (simp add: v_def)
  then show "of_nat (v div 65536) = a" by simp
  have "v = (unat a * 256 + unat b) * 256 + unat c" by (simp add: v_def)
  then have "v div 256 = unat a * 256 + unat b" using lc by simp
  then have "v div 256 mod 256 = unat b" using lb by simp
  then show "of_nat (v div 256) = b"
    using byte_of_nat_mod [of "v div 256"] by simp
  have "((unat a * 256 + unat b) * 256 + unat c) mod 256 = unat c mod 256"
    by (rule mod_mult_self3)
  moreover have "v = (unat a * 256 + unat b) * 256 + unat c" by (simp add: v_def)
  ultimately have "v mod 256 = unat c" using lc by (simp only: mod_less)
  then show "of_nat v = c"
    using byte_of_nat_mod [of v] by simp
qed

lemma quanta_sextets: "quanta (sextets v) = Some v"
proof (induction v rule: sextets.induct)
  case 1
  then show ?case by simp
next
  case (2 a)
  have l: "unat a * 16 < 4096" using byte_less [of a] by simp
  have e: "unat a * 65536 = (unat a * 16) * 4096" by simp
  show ?case
    using bytes3 [of a 0 0] 
    apply (simp only: sextets.simps quanta.simps Let_def e reassemble2 [OF l])
    apply simp
    done
next
  case (3 a b)
  have l: "unat a * 1024 + unat b * 4 < 262144"
    using byte_less [of a] byte_less [of b] by simp
  have e: "unat a * 65536 + unat b * 256 = (unat a * 1024 + unat b * 4) * 64" by simp
  show ?case
    using bytes3 [of a b 0]
    apply (simp only: sextets.simps quanta.simps Let_def e reassemble3 [OF l])
    apply simp
    done
next
  case (4 a b c src)
  show ?case
    using bytes3 [of a b c] "4.IH"
    by (simp only: sextets.simps quanta.simps Let_def append.simps reassemble option.map)
qed


lemma sextets_bound: "x \<in> set (sextets v) \<Longrightarrow> x < 64"
  by (induction v arbitrary: x rule: sextets.induct) (auto simp: Let_def)

lemma decodeMap_encodeURL:
  "\<forall>i\<in>{0..<64}. decodeMap encodeStd (encodeURL ! i) = (if i < 62 then Some i else None)"
  by code_simp

lemma encodeURL_not_newline:
  "\<forall>i\<in>{0..<64}. encodeURL ! i \<noteq> CHR 0x0A \<and> encodeURL ! i \<noteq> CHR 0x0D"
  by code_simp

lemma encodeURL_dash:
  "\<forall>i\<in>{0..<64}. (encodeURL ! i = CHR ''-'' \<or> encodeURL ! i = CHR ''_'') = (62 \<le> i)"
  by code_simp

lemma decodeChars_encodeURL:
  assumes "\<forall>x\<in>set xs. x < 64"
  shows "decodeChars encodeStd (map (\<lambda>i. encodeURL ! i) xs) =
           (if \<forall>x\<in>set xs. x < 62 then Some xs else None)"
  using assms
proof (induction xs)
  case Nil
  then show ?case by simp
next
  case (Cons x xs)
  then have x: "x \<in> {0..<64}" by simp
  from Cons have IH: "decodeChars encodeStd (map (\<lambda>i. encodeURL ! i) xs) =
           (if \<forall>x\<in>set xs. x < 62 then Some xs else None)" by simp
  show ?case
    using decodeMap_encodeURL [rule_format, OF x] encodeURL_not_newline [rule_format, OF x]
    by (simp add: IH)
qed

lemma dash_in_encoding:
  assumes "\<forall>x\<in>set xs. x < 64"
  shows "(CHR ''-'' \<in> set (map (\<lambda>i. encodeURL ! i) xs) \<or> CHR ''_'' \<in> set (map (\<lambda>i. encodeURL ! i) xs))
         = (\<not> (\<forall>x\<in>set xs. x < 62))"
  using assms
proof (induction xs)
  case Nil
  then show ?case by simp
next
  case (Cons x xs)
  then have x: "x \<in> {0..<64}" by simp
  from Cons have IH: "(CHR ''-'' \<in> set (map (\<lambda>i. encodeURL ! i) xs) \<or> CHR ''_'' \<in> set (map (\<lambda>i. encodeURL ! i) xs))
         = (\<not> (\<forall>x\<in>set xs. x < 62))" by simp
  from encodeURL_dash [rule_format, OF x] IH show ?case
    by (auto simp: not_less)
qed

text \<open>
  C6, as the code has it. The two alphabets differ in the characters of the groups 62
  and 63 only. The string written for \<open>v\<close> is parsed back to \<open>v\<close> when it contains
  neither \<open>-\<close> nor \<open>_\<close>, and is rejected as corrupt input when it contains one of
  them, as the string \<open>-w\<close> written for the single byte \<open>0xFB\<close> is.
\<close>

theorem EtcdBytes_roundtrip_iff:
  "EtcdBytes_ToString (SetBytes v) = Some (EncodeToString encodeURL v) \<and>
   EtcdBytes_FromString (EncodeToString encodeURL v) =
     (if CHR ''-'' \<in> set (EncodeToString encodeURL v) \<or> CHR ''_'' \<in> set (EncodeToString encodeURL v)
      then Inl CorruptInputError else Inr v) \<and>
   EtcdBytes_ToString (SetBytes [0xFB]) = Some ''-w'' \<and>
   EtcdBytes_FromString ''-w'' = Inl CorruptInputError"
proof -
  have c: "EtcdBytes_ToString (SetBytes [0xFB]) = Some ''-w'' \<and>
      EtcdBytes_FromString ''-w'' = Inl CorruptInputError"
    by code_simp
  have b: "\<forall>x\<in>set (sextets v). x < 64"
    by (simp add: sextets_bound)
  have g: "EtcdBytes_ToString (SetBytes v) = Some (EncodeToString encodeURL v) \<and>
      EtcdBytes_FromString (EncodeToString encodeURL v) =
        (if CHR ''-'' \<in> set (EncodeToString encodeURL v) \<or> CHR ''_'' \<in> set (EncodeToString encodeURL v)
         then Inl CorruptInputError else Inr v)"
    using decodeChars_encodeURL [OF b] dash_in_encoding [OF b]
    by (simp add: EtcdBytes_ToString_def SetBytes_def EtcdBytes_FromString_def DecodeString_def
        EncodeToString_def quanta_sextets)
  from g c show ?thesis
    by blast
qed

text \<open>
  C6, as the claim words it, says that a written byte blob does not come back. The
  three bytes \<open>abc\<close> are written as \<open>YWJj\<close>, and \<open>YWJj\<close> is parsed back to them.
\<close>

theorem EtcdBytes_roundtrip_abc:
  "EtcdBytes_ToString (SetBytes [0x61, 0x62, 0x63]) = Some ''YWJj'' \<and>
   EtcdBytes_FromString ''YWJj'' = Inr [0x61, 0x62, 0x63]"
  by code_simp

section \<open>Serialisation: results\<close>

lemma utod_digit: "d < 10 \<Longrightarrow> isDigit (utod d) \<and> digitVal (utod d) = d"
  by (simp add: isDigit_def digitVal_def utod_def)

lemma FormatUint_digits: "c \<in> set (FormatUint u) \<Longrightarrow> isDigit c"
proof (induction u arbitrary: c rule: FormatUint.induct)
  case (1 u)
  show ?case
  proof (cases "u < 10")
    case True
    with "1.prems" show ?thesis
      by (subst (asm) FormatUint.simps) (simp add: utod_digit)
  next
    case False
    with "1.prems" have "c \<in> set (FormatUint (u div 10)) \<or> c = utod (u mod 10)"
      by (subst (asm) FormatUint.simps) auto
    with False "1.IH" show ?thesis
      by (auto simp: utod_digit)
  qed
qed

lemma FormatUint_nonempty: "FormatUint u \<noteq> []"
  by (subst FormatUint.simps) simp

lemma ParseUint_loop_append:
  "ParseUint_loop n (xs @ ys) =
     (case ParseUint_loop n xs of Inl e \<Rightarrow> Inl e | Inr m \<Rightarrow> ParseUint_loop m ys)"
  by (induction xs arbitrary: n) auto

lemma ParseUint_loop_FormatUint:
  "u \<le> maxUint64 \<Longrightarrow> ParseUint_loop 0 (FormatUint u) = Inr u"
proof (induction u rule: FormatUint.induct)
  case (1 u)
  show ?case
  proof (cases "u < 10")
    case True
    then show ?thesis
      by (subst FormatUint.simps) (simp add: utod_digit maxUint64_def)
  next
    case False
    from "1.prems" have le: "u div 10 \<le> maxUint64" by simp
    have IH: "ParseUint_loop 0 (FormatUint (u div 10)) = Inr (u div 10)"
      using "1.IH" False le by simp
    have d: "isDigit (utod (u mod 10))" "digitVal (utod (u mod 10)) = u mod 10"
      by (simp_all add: utod_digit)
    have c: "\<not> u div 10 \<ge> maxUint64 div 10 + 1"
      using "1.prems" by (simp add: maxUint64_def)
    have s: "u div 10 * 10 + u mod 10 = u" by simp
    show ?thesis
      using False "1.prems" c
      by (subst FormatUint.simps) (simp add: ParseUint_loop_append IH d s del: div_mult_mod_eq)
  qed
qed

lemma ParseUint_FormatUint: "u \<le> maxUint64 \<Longrightarrow> ParseUint (FormatUint u) = Inr u"
  by (simp add: ParseUint_def FormatUint_nonempty ParseUint_loop_FormatUint)

lemma sign_not_digit: "\<not> isDigit CHR ''-''" "\<not> isDigit CHR ''+''"
  by (simp_all add: isDigit_def)

lemma hd_FormatUint: "hd (FormatUint u) \<noteq> CHR ''-'' \<and> hd (FormatUint u) \<noteq> CHR ''+''"
  using FormatUint_digits [of "hd (FormatUint u)" u] FormatUint_nonempty [of u] sign_not_digit
  by (metis hd_in_set)

lemma ParseInt_FormatInt:
  assumes "- 9223372036854775808 \<le> i" and "i < 9223372036854775808"
  shows "ParseInt (FormatInt i) = Inr i"
proof (cases "i < 0")
  case True
  with assms have "nat (- i) \<le> maxUint64" and "\<not> nat (- i) > 9223372036854775808"
    by (simp_all add: maxUint64_def)
  with True show ?thesis
    by (simp add: ParseInt_def FormatInt_def ParseUint_FormatUint)
next
  case False
  with assms have "nat i \<le> maxUint64" and "\<not> nat i \<ge> 9223372036854775808"
    by (simp_all add: maxUint64_def)
  with False show ?thesis
    using hd_FormatUint [of "nat i"]
    by (simp add: ParseInt_def FormatInt_def ParseUint_FormatUint FormatUint_nonempty)
qed

lemma EtcdInt_roundtrip: "EtcdInt_FromString (FormatInt (sint (i :: 64 word))) = Inr i"
proof -
  have "- 9223372036854775808 \<le> sint i" "sint i < 9223372036854775808"
    using sint_ge [of i] sint_lt [of i] by simp_all
  then show ?thesis
    by (simp add: EtcdInt_FromString_def ParseInt_FormatInt)
qed

lemma EtcdUint_roundtrip: "EtcdUint_FromString (FormatUint (unat (u :: 64 word))) = Inr u"
proof -
  have "unat u \<le> maxUint64"
    using unsigned_less [of u, where 'a = nat] by (simp add: maxUint64_def)
  then show ?thesis
    by (simp add: EtcdUint_FromString_def ParseUint_FormatUint)
qed

lemma EtcdBool_roundtrip: "EtcdBool_FromString (FormatBool b) = Inr b"
  by (cases b) (simp_all add: EtcdBool_FromString_def FormatBool_def ParseBool_def)

lemma two_digits: "x < 100 \<Longrightarrow> appendInt (int x) 2 = [utod (x div 10), utod (x mod 10)]"
  by (simp add: appendInt_def)

lemma getnum_appendInt:
  assumes "x < 100"
  shows "getnum (appendInt (int x) 2 @ rest) fixed = Some (x, rest)"
proof -
  have a: "x div 10 < 10" using assms by simp
  have b: "x mod 10 < 10" by simp
  show ?thesis
    using assms utod_digit [OF a] utod_digit [OF b]
    by (simp add: appendInt_def getnum_def)
qed

lemma four_digits:
  fixes n :: nat
  assumes "n < 10000"
  shows "((n div 1000 * 10 + n div 100 mod 10) * 10 + n div 10 mod 10) * 10 + n mod 10 = n"
proof -
  have "n div 1000 = n div 100 div 10" "n div 100 = n div 10 div 10"
    by (simp_all add: div_mult2_eq [symmetric])
  then show ?thesis
    by (metis div_mult_mod_eq)
qed

lemma parseYear_appendInt:
  assumes "0 \<le> y" and "y \<le> 9999"
  shows "parseYear (appendInt y 4 @ rest) = Some (nat y, rest)"
proof -
  define n where "n = nat y"
  have n: "n < 10000" using assms by (simp add: n_def)
  have a: "n div 1000 < 10" using n by simp
  have b: "n div 100 mod 10 < 10" "n div 10 mod 10 < 10" "n mod 10 < 10" by simp_all
  have y: "nat \<bar>y\<bar> = n" "\<not> y < 0" using assms by (simp_all add: n_def)
  show ?thesis
    using n utod_digit [OF a] utod_digit [OF b(1)] utod_digit [OF b(2)] utod_digit [OF b(3)]
      four_digits [OF n]
    by (simp add: appendInt_def parseYear_def y Let_def n_def [symmetric])
qed

lemma skip_char: "skip (c # rest) [c] = Some rest"
  by (simp add: skip_def HasPrefix_def)

lemma formatZone_cases:
  "formatZone off = ''Z'' \<or> (\<exists>r. formatZone off = CHR ''+'' # r) \<or> (\<exists>r. formatZone off = CHR ''-'' # r)"
  by (simp add: formatZone_def Let_def)

lemma parseFraction_formatZone: "parseFraction (formatZone off) = (0, formatZone off)"
  using formatZone_cases [of off]
  by (auto simp: parseFraction_def split: list.splits)

lemma parseZone_formatZone:
  assumes "off mod 60 = 0" and "\<bar>off\<bar> \<le> 86400"
  shows "parseZone (formatZone off) = Some (off, [])"
proof (cases "off = 0")
  case True
  then show ?thesis by (simp add: formatZone_def parseZone_def)
next
  case False
  define z where "z = nat (\<bar>off\<bar> div 60)"
  have zo: "\<bar>off\<bar> = int z * 60"
    using assms(1) by (auto simp: z_def abs_if zmod_zminus1_eq_if split: if_splits)
  have z: "z \<le> 1440" "0 < z" using assms(2) False zo by auto
  have hm: "z div 60 < 100" "z mod 60 < 100" "z div 60 \<le> 24" "z mod 60 \<le> 60"
    using z by simp_all
  have dig: "z div 60 div 10 < 10" "z div 60 mod 10 < 10" "z mod 60 div 10 < 10" "z mod 60 mod 10 < 10"
    using hm by simp_all
  have zone: "sgn off * (\<bar>off\<bar> div 60) = (if off < 0 then - int z else int z)"
    by (simp add: z_def sgn_if False)
  have e: "int z div 60 = int (z div 60)" "int z mod 60 = int (z mod 60)"
    by (simp_all add: zdiv_int zmod_int)
  have hh: "appendInt (int z div 60) 2 = [utod (z div 60 div 10), utod (z div 60 mod 10)]"
    unfolding e using hm by (simp only: two_digits)
  have mm: "appendInt (int z mod 60) 2 = [utod (z mod 60 div 10), utod (z mod 60 mod 10)]"
    unfolding e using hm by (simp only: two_digits)
  have g1: "getnum [utod (z div 60 div 10), utod (z div 60 mod 10)] True = Some (z div 60, [])"
    using utod_digit [OF dig(1)] utod_digit [OF dig(2)] by (simp add: getnum_def)
  have g2: "getnum [utod (z mod 60 div 10), utod (z mod 60 mod 10)] True = Some (z mod 60, [])"
    using utod_digit [OF dig(3)] utod_digit [OF dig(4)] by (simp add: getnum_def)
  have val: "(z div 60 * 60 + z mod 60) * 60 = z * 60" by simp
  show ?thesis
  proof (cases "off < 0")
    case True
    then have "off = - (int z * 60)" using zo by simp
    with True z show ?thesis
      using hm
      by (simp add: formatZone_def zone Let_def hh mm parseZone_def g1 g2 val del: of_nat_div of_nat_mod)
  next
    case False
    then have "off = int z * 60" using zo by simp
    with False z \<open>off \<noteq> 0\<close> show ?thesis
      using hm
      by (simp add: formatZone_def zone Let_def hh mm parseZone_def g1 g2 val del: of_nat_div of_nat_mod)
  qed
qed

lemma Parse_Format:
  assumes "rfc3339_whole_second t"
  shows "Parse_RFC3339 (Format_RFC3339 t) = Inr t"
proof -
  from assms have y: "0 \<le> year t" "year t \<le> 9999"
    and mo: "1 \<le> month t" "month t \<le> 12" "month t < 100"
    and d: "1 \<le> day t" "day t \<le> daysIn (month t) (year t)"
    and h: "hour t < 24" "hour t < 100"
    and mi: "minute t < 60" "minute t < 100"
    and s: "second t < 60" "second t < 100"
    and ns: "nanosecond t = 0"
    and off: "offset t mod 60 = 0" "\<bar>offset t\<bar> \<le> 86400"
    by (simp_all add: rfc3339_whole_second_def)
  have "daysIn (month t) (year t) \<le> 31" by (simp add: daysIn_def)
  with d have d100: "day t < 100" by simp
  have t: "\<lparr>year = year t, month = month t, day = day t, hour = hour t, minute = minute t,
      second = second t, nanosecond = 0, offset = offset t\<rparr> = t"
    using ns by simp
  have "parseFields (Format_RFC3339 t) = Some t"
    using y mo d h mi s
    by (simp add: Format_RFC3339_def parseFields_def parseYear_appendInt getnum_appendInt
        skip_char d100 parseFraction_formatZone parseZone_formatZone [OF off] t)
  then show ?thesis
    by (simp add: Parse_RFC3339_def)
qed

text \<open>
  C5, as the code has it. An identifier, a text, a signed integer, an unsigned integer
  and a boolean are parsed back from their written form, for every value. A time is
  parsed back from its written form when the layout can carry it: whole seconds, a year
  from 0 to 9999, an offset of whole minutes within 24 hours.
\<close>

theorem FromString_ToString_roundtrip:
  "map_option EtcdUuid_FromString (EtcdUuid_ToString (SetUuid u)) = Some (Inr u) \<and>
   map_option EtcdString_FromString (EtcdString_ToString (SetString s)) = Some (Inr s) \<and>
   map_option EtcdInt_FromString (EtcdInt_ToString (SetInt i)) = Some (Inr i) \<and>
   map_option EtcdUint_FromString (EtcdUint_ToString (SetUint n)) = Some (Inr n) \<and>
   map_option EtcdBool_FromString (EtcdBool_ToString (SetBool b)) = Some (Inr b) \<and>
   (rfc3339_whole_second t \<longrightarrow>
      map_option EtcdTime_FromString (EtcdTime_ToString (SetTime t)) = Some (Inr t))"
proof (intro conjI impI)
  show "map_option EtcdUuid_FromString (EtcdUuid_ToString (SetUuid u)) = Some (Inr u)"
    by (simp add: EtcdUuid_ToString_def EtcdUuid_FromString_def SetUuid_def)
  show "map_option EtcdString_FromString (EtcdString_ToString (SetString s)) = Some (Inr s)"
    by (simp add: EtcdString_ToString_def EtcdString_FromString_def SetString_def)
  show "map_option EtcdInt_FromString (EtcdInt_ToString (SetInt i)) = Some (Inr i)"
    by (simp add: EtcdInt_ToString_def SetInt_def EtcdInt_roundtrip)
  show "map_option EtcdUint_FromString (EtcdUint_ToString (SetUint n)) = Some (Inr n)"
    by (simp add: EtcdUint_ToString_def SetUint_def EtcdUint_roundtrip)
  show "map_option EtcdBool_FromString (EtcdBool_ToString (SetBool b)) = Some (Inr b)"
    by (simp add: EtcdBool_ToString_def SetBool_def EtcdBool_roundtrip)
next
  assume "rfc3339_whole_second t"
  then show "map_option EtcdTime_FromString (EtcdTime_ToString (SetTime t)) = Some (Inr t)"
    by (simp add: EtcdTime_ToString_def SetTime_def EtcdTime_FromString_def Parse_Format)
qed

theorem FromString_ToString_roundtrip_witness:
  "rfc3339_whole_second \<lparr>year = 2018, month = 8, day = 30, hour = 12, minute = 0,
      second = 0, nanosecond = 0, offset = 0\<rparr> \<and>
   map_option EtcdTime_FromString (EtcdTime_ToString (SetTime \<lparr>year = 2018, month = 8, day = 30,
      hour = 12, minute = 0, second = 0, nanosecond = 0, offset = 0\<rparr>)) =
     Some (Inr \<lparr>year = 2018, month = 8, day = 30, hour = 12, minute = 0,
      second = 0, nanosecond = 0, offset = 0\<rparr>) \<and>
   map_option EtcdInt_FromString (EtcdInt_ToString (SetInt (- 42))) = Some (Inr (- 42)) \<and>
   map_option EtcdUint_FromString (EtcdUint_ToString (SetUint 42)) = Some (Inr 42) \<and>
   map_option EtcdBool_FromString (EtcdBool_ToString (SetBool True)) = Some (Inr True) \<and>
   map_option EtcdString_FromString (EtcdString_ToString (SetString ''test'')) = Some (Inr ''test'') \<and>
   map_option EtcdUuid_FromString (EtcdUuid_ToString (SetUuid ''uuid-test'')) = Some (Inr ''uuid-test'')"
proof -
  have w: "rfc3339_whole_second \<lparr>year = 2018, month = 8, day = 30, hour = 12, minute = 0,
      second = 0, nanosecond = 0, offset = 0\<rparr>"
    by (simp add: rfc3339_whole_second_def daysIn_def)
  from w FromString_ToString_roundtrip [of "''uuid-test''" "''test''" "- 42" 42 True
      "\<lparr>year = 2018, month = 8, day = 30, hour = 12, minute = 0,
        second = 0, nanosecond = 0, offset = 0\<rparr>"]
  show ?thesis by blast
qed

text \<open>
  C5, as the claim words it, covers every time. The time 2018-08-30 12:00:00 UTC plus
  one nanosecond is written without its nanosecond, and is parsed back as another
  time, the one of the whole second.
\<close>

theorem EtcdTime_roundtrip_drops_nanosecond:
  "EtcdTime_ToString (SetTime \<lparr>year = 2018, month = 8, day = 30, hour = 12, minute = 0,
      second = 0, nanosecond = 1, offset = 0\<rparr>) = Some ''2018-08-30T12:00:00Z'' \<and>
   EtcdTime_FromString ''2018-08-30T12:00:00Z'' =
     Inr \<lparr>year = 2018, month = 8, day = 30, hour = 12, minute = 0,
      second = 0, nanosecond = 0, offset = 0\<rparr> \<and>
   map_option EtcdTime_FromString (EtcdTime_ToString (SetTime \<lparr>year = 2018, month = 8,
      day = 30, hour = 12, minute = 0, second = 0, nanosecond = 1, offset = 0\<rparr>)) \<noteq>
     Some (Inr \<lparr>year = 2018, month = 8, day = 30, hour = 12, minute = 0,
      second = 0, nanosecond = 1, offset = 0\<rparr>)"
proof -
  have a: "EtcdTime_ToString (SetTime \<lparr>year = 2018, month = 8, day = 30, hour = 12, minute = 0,
      second = 0, nanosecond = 1, offset = 0\<rparr>) = Some ''2018-08-30T12:00:00Z''"
    by code_simp
  have b: "EtcdTime_FromString ''2018-08-30T12:00:00Z'' =
     Inr \<lparr>year = 2018, month = 8, day = 30, hour = 12, minute = 0,
      second = 0, nanosecond = 0, offset = 0\<rparr>"
    by code_simp
  show ?thesis
    unfolding a by (simp add: b)
qed


end
